theory Spec2Isabelle
  imports Complex_Main "HOL-Library.Sublist" "HOL-Library.Word"
begin

section \<open>Python values, exceptions and the world outside the client\<close>

text \<open>
  The client (\<^verbatim>\<open>cdl_client/remote.py\<close>, \<^verbatim>\<open>cdlclient/baseproxy.py\<close>) is a thin
  XML-RPC proxy. Python exceptions are values of \<open>exc\<close>; a function that may raise
  returns \<open>exc + 'a\<close>, with \<open>Inl\<close> the exception. \<open>OtherError\<close> stands for every
  exception class the source does not name (an XML-RPC fault, a socket error other
  than a refused connection, ...).
\<close>

datatype exc =
    TypeError
  | ValueError string
  | ImportError string
  | AttributeError string
  | ConnectionRefusedError
  | NoSectionError
  | NoOptionError
  | CDLConnectionError string
  | OtherError string

type_synonym bytes = "8 word list"

text \<open>A NumPy array: element type, shape and raw buffer.\<close>

datatype ndarray = NDArray (dtype: string) (shape: "nat list") (buffer: bytes)

text \<open>A guidata DataSet: the module and name of its class, and its items.\<close>

datatype dataset = DataSet (ds_module: string) (ds_class: string) (ds_items: "(string \<times> string) list")

text \<open>
  The Python values that cross the proxy. \<open>Binary\<close> is \<^verbatim>\<open>xmlrpc.client.Binary\<close>,
  \<open>PlotItem\<close> an annotation plot item of PlotPy.
\<close>

datatype pyval =
    PNone
  | PBool bool
  | PInt int
  | PStr string
  | PList "pyval list"
  | Binary bytes
  | PArray ndarray
  | PDataSet dataset
  | PlotItem string

type_synonym environment = "string \<rightharpoonup> string"

text \<open>A parsed configuration file: section name to option name to value.\<close>

type_synonym ini = "string \<rightharpoonup> (string \<rightharpoonup> string)"

text \<open>
  The state of the Python process that the client reads and writes:
  \<^verbatim>\<open>sys.platform\<close> and \<^verbatim>\<open>os.environ\<close>.
\<close>

record process =
  platform :: string
  environ :: environment

text \<open>
  What lies outside the process at one moment: \<open>config_file env\<close> is what
  \<^verbatim>\<open>ConfigParser.read\<close> finds in \<^verbatim>\<open>.DataLab/DataLab.ini\<close> under guidata's
  \<^verbatim>\<open>get_config_basedir()\<close> (which depends on the environment; a missing file reads
  as the empty configuration), and \<open>rpc port method args\<close> is the answer of whatever
  listens on \<^verbatim>\<open>http://127.0.0.1:{port}\<close> to an XML-RPC call.
\<close>

record world =
  config_file :: "environment \<Rightarrow> ini"
  rpc :: "pyval \<Rightarrow> string \<Rightarrow> pyval list \<Rightarrow> exc + pyval"

text \<open>\<^verbatim>\<open>ServerProxy(f"http://127.0.0.1:{port}", allow_none=True)\<close>\<close>

datatype server_proxy = ServerProxy pyval

text \<open>
  \<^verbatim>\<open>RemoteClient\<close>: \<^verbatim>\<open>self.port\<close> and \<^verbatim>\<open>self._cdl\<close>. \<^verbatim>\<open>__init__\<close> sets both
  to \<^verbatim>\<open>None\<close>.
\<close>

record client =
  port :: pyval
  cdl :: "server_proxy option"

definition init :: client where
  "init = \<lparr>port = PNone, cdl = None\<rparr>"

text \<open>
  What a run does to the outside, in order: text printed through \<^verbatim>\<open>execenv.print\<close>,
  a remote call (port, method, arguments), a \<^verbatim>\<open>time.sleep\<close>. \<open>Attempt r\<close> marks the
  end of one invocation of \<^verbatim>\<open>__connect_to_server\<close> with outcome \<open>r\<close>.
\<close>

datatype message = Connecting | KO | OK pyval

datatype event =
    Print message
  | Call pyval string "pyval list"
  | Sleep real
  | Attempt "exc + unit"

fun calls :: "event list \<Rightarrow> (string \<times> pyval list) list" where
  "calls [] = []"
| "calls (Call p m args # evs) = (m, args) # calls evs"
| "calls (_ # evs) = calls evs"




section \<open>Port discovery\<close>

definition XMLRPCPORT_ENV :: string where
  "XMLRPCPORT_ENV = ''CDL_XMLRPCPORT''"

text \<open>
  The builtin \<^verbatim>\<open>int\<close> on the result of \<^verbatim>\<open>os.environ.get\<close>: \<^verbatim>\<open>TypeError\<close> on
  \<^verbatim>\<open>None\<close>, \<^verbatim>\<open>ValueError\<close> on a string that is not an integer literal. The
  parser of integer literals is Python's own and is a parameter: \<open>int_str s\<close> is
  \<open>Some n\<close> when \<^verbatim>\<open>int(s)\<close> returns \<open>n\<close> and \<open>None\<close> when it raises.
\<close>

definition py_int :: "(string \<Rightarrow> int option) \<Rightarrow> string option \<Rightarrow> exc + int" where
  "py_int int_str v =
     (case v of
        None \<Rightarrow> Inl TypeError
      | Some s \<Rightarrow>
          (case int_str s of
             None \<Rightarrow> Inl (ValueError ''invalid literal for int() with base 10'')
           | Some n \<Rightarrow> Inr n))"

text \<open>
  \<^verbatim>\<open>
  def get_xmlrpcport_from_env() -> int | None:
      try:
          return int(os.environ.get(XMLRPCPORT_ENV))
      except (TypeError, ValueError):
          return None
  \<close>
\<close>

definition get_xmlrpcport_from_env ::
    "(string \<Rightarrow> int option) \<Rightarrow> environment \<Rightarrow> exc + int option" where
  "get_xmlrpcport_from_env int_str env =
     (case py_int int_str (env XMLRPCPORT_ENV) of
        Inr n \<Rightarrow> Inr (Some n)
      | Inl TypeError \<Rightarrow> Inr None
      | Inl (ValueError m) \<Rightarrow> Inr None
      | Inl e \<Rightarrow> Inl e)"

text \<open>
  \<^verbatim>\<open>ConfigParser.get(section, option)\<close>: \<^verbatim>\<open>NoSectionError\<close> when the section is
  missing, \<^verbatim>\<open>NoOptionError\<close> when the option is.
\<close>

definition ini_get :: "ini \<Rightarrow> string \<Rightarrow> string \<Rightarrow> exc + string" where
  "ini_get ini section option =
     (case ini section of
        None \<Rightarrow> Inl NoSectionError
      | Some opts \<Rightarrow>
          (case opts option of
             None \<Rightarrow> Inl NoOptionError
           | Some v \<Rightarrow> Inr v))"

text \<open>
  \<^verbatim>\<open>
  def get_cdl_xmlrpc_port():
      if sys.platform == "win32" and "HOME" in os.environ:
          os.environ.pop("HOME")
      fname = osp.join(get_config_basedir(), ".DataLab", "DataLab.ini")
      ini = cp.ConfigParser()
      ini.read(fname)
      try:
          return ini.get("main", "rpc_server_port")
      except (cp.NoSectionError, cp.NoOptionError) as exc:
          raise CDLConnectionError("DataLab has not yet been executed") from exc
  \<close>
  \<open>pop_home\<close> is the first statement.
\<close>

definition pop_home :: "process \<Rightarrow> process" where
  "pop_home pr =
     (if platform pr = ''win32'' \<and> environ pr ''HOME'' \<noteq> None
      then pr\<lparr>environ := (environ pr)(''HOME'' := None)\<rparr>
      else pr)"

definition get_cdl_xmlrpc_port :: "world \<Rightarrow> process \<Rightarrow> (exc + string) \<times> process" where
  "get_cdl_xmlrpc_port w pr =
     (let pr' = pop_home pr;
          ini = config_file w (environ pr')
      in (case ini_get ini ''main'' ''rpc_server_port'' of
            Inr v \<Rightarrow> (Inr v, pr')
          | Inl NoSectionError \<Rightarrow>
              (Inl (CDLConnectionError ''DataLab has not yet been executed''), pr')
          | Inl NoOptionError \<Rightarrow>
              (Inl (CDLConnectionError ''DataLab has not yet been executed''), pr')
          | Inl e \<Rightarrow> (Inl e, pr')))"


section \<open>The remote call and the connection\<close>

text \<open>
  \<^verbatim>\<open>self._cdl.method(*args)\<close>: with \<^verbatim>\<open>self._cdl\<close> still \<^verbatim>\<open>None\<close> the attribute
  lookup raises \<^verbatim>\<open>AttributeError\<close> (its message is abridged here) and nothing is
  sent; otherwise the call goes to the server of the proxy and its answer, or the
  exception it raises, comes back.
\<close>

definition remote_call ::
    "world \<Rightarrow> client \<Rightarrow> string \<Rightarrow> pyval list \<Rightarrow> (exc + pyval) \<times> event list" where
  "remote_call w c method args =
     (case cdl c of
        None \<Rightarrow>
          (Inl (AttributeError (''NoneType object has no attribute '' @ method)), [])
      | Some (ServerProxy p) \<Rightarrow> (rpc w p method args, [Call p method args]))"

text \<open>
  A method that ends in \<^verbatim>\<open>return self._cdl.method(...)\<close> returns what
  \<open>remote_call\<close> does. A method whose body is the bare call returns \<^verbatim>\<open>None\<close>
  once the call has returned, and lets its exception through otherwise.
\<close>

definition discard :: "(exc + pyval) \<times> event list \<Rightarrow> (exc + pyval) \<times> event list" where
  "discard r = (case r of (Inl e, evs) \<Rightarrow> (Inl e, evs) | (Inr v, evs) \<Rightarrow> (Inr PNone, evs))"

text \<open>\<^verbatim>\<open>def get_version(self): return self._cdl.get_version()\<close>\<close>

definition get_version :: "world \<Rightarrow> client \<Rightarrow> (exc + pyval) \<times> event list" where
  "get_version w c = remote_call w c ''get_version'' []"

text \<open>
  \<^verbatim>\<open>
  def __connect_to_server(self, port=None):
      if port is None:
          port = get_xmlrpcport_from_env()
          if port is None:
              port = get_cdl_xmlrpc_port()
      self.port = port
      self._cdl = ServerProxy(f"http://127.0.0.1:{port}", allow_none=True)
      try:
          self.get_version()
      except ConnectionRefusedError as exc:
          raise CDLConnectionError("DataLab is currently not running") from exc
  \<close>
  \<open>discover_port\<close> is the first four lines of the body.
\<close>

definition discover_port ::
    "(string \<Rightarrow> int option) \<Rightarrow> world \<Rightarrow> pyval \<Rightarrow> process \<Rightarrow> (exc + pyval) \<times> process" where
  "discover_port int_str w p pr =
     (if p = PNone then
        (case get_xmlrpcport_from_env int_str (environ pr) of
           Inl e \<Rightarrow> (Inl e, pr)
         | Inr (Some n) \<Rightarrow> (Inr (PInt n), pr)
         | Inr None \<Rightarrow>
             (case get_cdl_xmlrpc_port w pr of
                (Inl e, pr') \<Rightarrow> (Inl e, pr')
              | (Inr v, pr') \<Rightarrow> (Inr (PStr v), pr')))
      else (Inr p, pr))"

definition connect_to_server ::
    "(string \<Rightarrow> int option) \<Rightarrow> world \<Rightarrow> pyval \<Rightarrow> process \<times> client
       \<Rightarrow> (exc + unit) \<times> (process \<times> client) \<times> event list" where
  "connect_to_server int_str w p st =
     (case st of (pr, c) \<Rightarrow>
        (case discover_port int_str w p pr of
           (Inl e, pr') \<Rightarrow> (Inl e, (pr', c), [])
         | (Inr p', pr') \<Rightarrow>
             (let c' = c\<lparr>port := p', cdl := Some (ServerProxy p')\<rparr>
              in (case get_version w c' of
                    (Inl ConnectionRefusedError, evs) \<Rightarrow>
                      (Inl (CDLConnectionError ''DataLab is currently not running''),
                       (pr', c'), evs)
                  | (Inl e, evs) \<Rightarrow> (Inl e, (pr', c'), evs)
                  | (Inr v, evs) \<Rightarrow> (Inr (), (pr', c'), evs)))))"

text \<open>
  \<^verbatim>\<open>
  for _index in range(retries):
      try:
          self.__connect_to_server(port=port)
          break
      except CDLConnectionError:
          time.sleep(timeout / retries)
  else:
      execenv.print("KO")
      raise CDLConnectionError("Unable to connect to DataLab")
  \<close>
  \<open>connect_loop int_str W p d n i\<close> runs the \<open>n\<close> iterations that remain, the next
  one with index \<open>i\<close>; \<open>W i\<close> is the world at the time of iteration \<open>i\<close> and \<open>d\<close>
  is \<^verbatim>\<open>timeout / retries\<close>.
\<close>

fun connect_loop ::
    "(string \<Rightarrow> int option) \<Rightarrow> (nat \<Rightarrow> world) \<Rightarrow> pyval \<Rightarrow> real \<Rightarrow> nat \<Rightarrow> nat
       \<Rightarrow> process \<times> client \<Rightarrow> (exc + unit) \<times> (process \<times> client) \<times> event list" where
  "connect_loop int_str W p d 0 i st =
     (Inl (CDLConnectionError ''Unable to connect to DataLab''), st, [Print KO])"
| "connect_loop int_str W p d (Suc n) i st =
     (case connect_to_server int_str (W i) p st of
        (Inr u, st', evs) \<Rightarrow> (Inr (), st', evs @ [Attempt (Inr ())])
      | (Inl (CDLConnectionError m), st', evs) \<Rightarrow>
          (case connect_loop int_str W p d n (Suc i) st' of
             (r, st'', evs') \<Rightarrow>
               (r, st'', evs @ [Attempt (Inl (CDLConnectionError m)), Sleep d] @ evs'))
      | (Inl e, st', evs) \<Rightarrow> (Inl e, st', evs @ [Attempt (Inl e)]))"

text \<open>
  \<^verbatim>\<open>
  def connect(self, port=None, timeout=None, retries=None):
      timeout = 5.0 if timeout is None else timeout
      retries = 10 if retries is None else retries
      if timeout < 0.0:
          raise ValueError("timeout must be >= 0.0")
      if retries < 1:
          raise ValueError("retries must be >= 1")
      execenv.print("Connecting to DataLab XML-RPC server...", end="")
      for _index in range(retries): ...
      execenv.print(f"OK (port: {self.port})")
  \<close>
  \<open>or_default d v\<close> is \<^verbatim>\<open>d if v is None else v\<close>. Python's floats are taken as
  real numbers, so that \<^verbatim>\<open>timeout / retries\<close> is the exact quotient.
\<close>

definition or_default :: "'a \<Rightarrow> 'a option \<Rightarrow> 'a" where
  "or_default d v = (case v of None \<Rightarrow> d | Some x \<Rightarrow> x)"

definition connect ::
    "(string \<Rightarrow> int option) \<Rightarrow> (nat \<Rightarrow> world) \<Rightarrow> pyval \<Rightarrow> real option \<Rightarrow> int option
       \<Rightarrow> process \<times> client \<Rightarrow> (exc + unit) \<times> (process \<times> client) \<times> event list" where
  "connect int_str W p timeout retries st =
     (let timeout = or_default 5 timeout;
          retries = or_default 10 retries
      in if timeout < 0 then (Inl (ValueError ''timeout must be >= 0.0''), st, [])
         else if retries < 1 then (Inl (ValueError ''retries must be >= 1''), st, [])
         else (case connect_loop int_str W p (timeout / real_of_int retries) (nat retries) 0 st of
                 (Inl e, st', evs) \<Rightarrow> (Inl e, st', Print Connecting # evs)
               | (Inr u, st', evs) \<Rightarrow>
                   (Inr (), st', Print Connecting # evs @ [Print (OK (port (snd st')))])))"

text \<open>\<^verbatim>\<open>def disconnect(self): self._cdl = None\<close>\<close>

definition disconnect :: "client \<Rightarrow> client" where
  "disconnect c = c\<lparr>cdl := None\<rparr>"


section \<open>The codecs\<close>

text \<open>
  \<^verbatim>\<open>
  def array_to_rpcbinary(data):
      dbytes = BytesIO()
      np.save(dbytes, data, allow_pickle=False)
      return Binary(dbytes.getvalue())
  \<close>
  NumPy is not part of the repository: \<open>np_save data\<close> is the content of the buffer
  after \<^verbatim>\<open>np.save(dbytes, data, allow_pickle=False)\<close>, or the exception it raises.
\<close>

definition array_to_rpcbinary :: "(ndarray \<Rightarrow> exc + bytes) \<Rightarrow> ndarray \<Rightarrow> exc + pyval" where
  "array_to_rpcbinary np_save data =
     (case np_save data of Inl e \<Rightarrow> Inl e | Inr dbytes \<Rightarrow> Inr (Binary dbytes))"

text \<open>
  \<^verbatim>\<open>
  def dataset_to_json(param):
      writer = JSONWriter()
      param.serialize(writer)
      param_json = writer.get_json()
      klass = param.__class__
      return [klass.__module__, klass.__name__, param_json]
  \<close>
  guidata is not part of the repository: \<open>serialize param\<close> is the text that
  \<^verbatim>\<open>writer.get_json()\<close> returns after \<^verbatim>\<open>param.serialize(writer)\<close>.
\<close>

definition dataset_to_json :: "(dataset \<Rightarrow> string) \<Rightarrow> dataset \<Rightarrow> pyval" where
  "dataset_to_json serialize param =
     PList [PStr (ds_module param), PStr (ds_class param), PStr (serialize param)]"

text \<open>
  \<^verbatim>\<open>
  def items_to_json(items):
      from plotpy.io import save_items
      if items:
          writer = JSONWriter(None)
          save_items(writer, items)
          return writer.get_json(indent=4)
      return None
  \<close>
  \<open>plotpy\<close> is \<open>None\<close> when the import fails, and otherwise \<open>Some save_items\<close>
  with \<open>save_items items\<close> the text that the writer holds after
  \<^verbatim>\<open>save_items(writer, items)\<close>.
\<close>

definition items_to_json ::
    "(pyval list \<Rightarrow> string) option \<Rightarrow> pyval list \<Rightarrow> exc + string option" where
  "items_to_json plotpy items =
     (case plotpy of
        None \<Rightarrow> Inl (ImportError ''No module named plotpy'')
      | Some save_items \<Rightarrow>
          (if items \<noteq> [] then Inr (Some (save_items items)) else Inr None))"


section \<open>The forwarding methods\<close>

text \<open>
  \<^verbatim>\<open>SimpleBaseProxy\<close>. Each body is the one remote call shown; a default value of
  the Python signature is passed by the caller of the model.
\<close>

text \<open>\<^verbatim>\<open>self._cdl.close_application()\<close>\<close>

definition close_application :: "world \<Rightarrow> client \<Rightarrow> (exc + pyval) \<times> event list" where
  "close_application w c = discard (remote_call w c ''close_application'' [])"

text \<open>\<^verbatim>\<open>self._cdl.switch_to_panel(panel)\<close>\<close>

definition switch_to_panel :: "world \<Rightarrow> client \<Rightarrow> pyval \<Rightarrow> (exc + pyval) \<times> event list" where
  "switch_to_panel w c panel = discard (remote_call w c ''switch_to_panel'' [panel])"

text \<open>\<^verbatim>\<open>self._cdl.reset_all()\<close>\<close>

definition reset_all :: "world \<Rightarrow> client \<Rightarrow> (exc + pyval) \<times> event list" where
  "reset_all w c = discard (remote_call w c ''reset_all'' [])"

text \<open>\<^verbatim>\<open>self._cdl.save_to_h5_file(filename)\<close>\<close>

definition save_to_h5_file :: "world \<Rightarrow> client \<Rightarrow> pyval \<Rightarrow> (exc + pyval) \<times> event list" where
  "save_to_h5_file w c filename = discard (remote_call w c ''save_to_h5_file'' [filename])"

text \<open>\<^verbatim>\<open>self._cdl.open_h5_files(h5files, import_all, reset_all)\<close>\<close>

definition open_h5_files ::
    "world \<Rightarrow> client \<Rightarrow> pyval \<Rightarrow> pyval \<Rightarrow> pyval \<Rightarrow> (exc + pyval) \<times> event list" where
  "open_h5_files w c h5files import_all reset =
     discard (remote_call w c ''open_h5_files'' [h5files, import_all, reset])"

text \<open>\<^verbatim>\<open>self._cdl.import_h5_file(filename, reset_all)\<close>\<close>

definition import_h5_file ::
    "world \<Rightarrow> client \<Rightarrow> pyval \<Rightarrow> pyval \<Rightarrow> (exc + pyval) \<times> event list" where
  "import_h5_file w c filename reset =
     discard (remote_call w c ''import_h5_file'' [filename, reset])"

text \<open>\<^verbatim>\<open>self._cdl.open_object(filename)\<close>\<close>

definition open_object :: "world \<Rightarrow> client \<Rightarrow> pyval \<Rightarrow> (exc + pyval) \<times> event list" where
  "open_object w c filename = discard (remote_call w c ''open_object'' [filename])"

text \<open>\<^verbatim>\<open>return self._cdl.get_sel_object_uuids(include_groups)\<close>\<close>

definition get_sel_object_uuids ::
    "world \<Rightarrow> client \<Rightarrow> pyval \<Rightarrow> (exc + pyval) \<times> event list" where
  "get_sel_object_uuids w c include_groups =
     remote_call w c ''get_sel_object_uuids'' [include_groups]"

text \<open>\<^verbatim>\<open>self._cdl.select_objects(selection, group_num, panel)\<close>\<close>

definition select_objects ::
    "world \<Rightarrow> client \<Rightarrow> pyval \<Rightarrow> pyval \<Rightarrow> pyval \<Rightarrow> (exc + pyval) \<times> event list" where
  "select_objects w c selection group_num panel =
     discard (remote_call w c ''select_objects'' [selection, group_num, panel])"

text \<open>\<^verbatim>\<open>self._cdl.select_groups(selection, panel)\<close>\<close>

definition select_groups ::
    "world \<Rightarrow> client \<Rightarrow> pyval \<Rightarrow> pyval \<Rightarrow> (exc + pyval) \<times> event list" where
  "select_groups w c selection panel =
     discard (remote_call w c ''select_groups'' [selection, panel])"

text \<open>\<^verbatim>\<open>self._cdl.delete_metadata(refresh_plot)\<close>\<close>

definition delete_metadata :: "world \<Rightarrow> client \<Rightarrow> pyval \<Rightarrow> (exc + pyval) \<times> event list" where
  "delete_metadata w c refresh_plot =
     discard (remote_call w c ''delete_metadata'' [refresh_plot])"

text \<open>\<^verbatim>\<open>return self._cdl.get_object_titles(panel)\<close>\<close>

definition get_object_titles :: "world \<Rightarrow> client \<Rightarrow> pyval \<Rightarrow> (exc + pyval) \<times> event list" where
  "get_object_titles w c panel = remote_call w c ''get_object_titles'' [panel]"

text \<open>\<^verbatim>\<open>return self._cdl.get_object_uuids(panel)\<close>\<close>

definition get_object_uuids :: "world \<Rightarrow> client \<Rightarrow> pyval \<Rightarrow> (exc + pyval) \<times> event list" where
  "get_object_uuids w c panel = remote_call w c ''get_object_uuids'' [panel]"

text \<open>\<^verbatim>\<open>self._cdl.add_label_with_title(title, panel)\<close>\<close>

definition add_label_with_title ::
    "world \<Rightarrow> client \<Rightarrow> pyval \<Rightarrow> pyval \<Rightarrow> (exc + pyval) \<times> event list" where
  "add_label_with_title w c title panel =
     discard (remote_call w c ''add_label_with_title'' [title, panel])"

text \<open>\<^verbatim>\<open>RemoteClient\<close>: \<^verbatim>\<open>return self._cdl.system.listMethods()\<close>\<close>

definition get_method_list :: "world \<Rightarrow> client \<Rightarrow> (exc + pyval) \<times> event list" where
  "get_method_list w c = remote_call w c ''system.listMethods'' []"

text \<open>
  \<^verbatim>\<open>
  def add_signal(self, title, xdata, ydata, xunit=None, yunit=None,
                 xlabel=None, ylabel=None):
      xbinary = array_to_rpcbinary(xdata)
      ybinary = array_to_rpcbinary(ydata)
      return self._cdl.add_signal(
          title, xbinary, ybinary, xunit, yunit, xlabel, ylabel)
  \<close>
\<close>

definition add_signal ::
    "(ndarray \<Rightarrow> exc + bytes) \<Rightarrow> world \<Rightarrow> client \<Rightarrow> pyval \<Rightarrow> ndarray \<Rightarrow> ndarray
       \<Rightarrow> pyval \<Rightarrow> pyval \<Rightarrow> pyval \<Rightarrow> pyval \<Rightarrow> (exc + pyval) \<times> event list" where
  "add_signal np_save w c title xdata ydata xunit yunit xlabel ylabel =
     (case array_to_rpcbinary np_save xdata of
        Inl e \<Rightarrow> (Inl e, [])
      | Inr xbinary \<Rightarrow>
          (case array_to_rpcbinary np_save ydata of
             Inl e \<Rightarrow> (Inl e, [])
           | Inr ybinary \<Rightarrow>
               remote_call w c ''add_signal''
                 [title, xbinary, ybinary, xunit, yunit, xlabel, ylabel]))"

text \<open>
  \<^verbatim>\<open>
  def add_image(self, title, data, xunit=None, yunit=None, zunit=None,
                xlabel=None, ylabel=None, zlabel=None):
      zbinary = array_to_rpcbinary(data)
      return self._cdl.add_image(
          title, zbinary, xunit, yunit, zunit, xlabel, ylabel, zlabel)
  \<close>
\<close>

definition add_image ::
    "(ndarray \<Rightarrow> exc + bytes) \<Rightarrow> world \<Rightarrow> client \<Rightarrow> pyval \<Rightarrow> ndarray
       \<Rightarrow> pyval \<Rightarrow> pyval \<Rightarrow> pyval \<Rightarrow> pyval \<Rightarrow> pyval \<Rightarrow> pyval \<Rightarrow> (exc + pyval) \<times> event list" where
  "add_image np_save w c title data xunit yunit zunit xlabel ylabel zlabel =
     (case array_to_rpcbinary np_save data of
        Inl e \<Rightarrow> (Inl e, [])
      | Inr zbinary \<Rightarrow>
          remote_call w c ''add_image''
            [title, zbinary, xunit, yunit, zunit, xlabel, ylabel, zlabel])"

text \<open>
  \<^verbatim>\<open>
  def calc(self, name, param=None):
      if param is None:
          return self._cdl.calc(name)
      return self._cdl.calc(name, dataset_to_json(param))
  \<close>
\<close>

definition calc ::
    "(dataset \<Rightarrow> string) \<Rightarrow> world \<Rightarrow> client \<Rightarrow> string \<Rightarrow> dataset option
       \<Rightarrow> (exc + pyval) \<times> event list" where
  "calc serialize w c name param =
     (case param of
        None \<Rightarrow> remote_call w c ''calc'' [PStr name]
      | Some d \<Rightarrow> remote_call w c ''calc'' [PStr name, dataset_to_json serialize d])"

text \<open>
  \<^verbatim>\<open>
  def add_annotations_from_items(self, items, refresh_plot=True, panel=None):
      try:
          items_json = items_to_json(items)
      except ImportError as exc:
          raise ImportError("PlotPy is not installed") from exc
      if items_json is not None:
          self._cdl.add_annotations_from_items(items_json, refresh_plot, panel)
  \<close>
\<close>

definition add_annotations_from_items ::
    "(pyval list \<Rightarrow> string) option \<Rightarrow> world \<Rightarrow> client \<Rightarrow> pyval list \<Rightarrow> pyval \<Rightarrow> pyval
       \<Rightarrow> (exc + pyval) \<times> event list" where
  "add_annotations_from_items plotpy w c items refresh_plot panel =
     (case items_to_json plotpy items of
        Inl (ImportError m) \<Rightarrow> (Inl (ImportError ''PlotPy is not installed''), [])
      | Inl e \<Rightarrow> (Inl e, [])
      | Inr None \<Rightarrow> (Inr PNone, [])
      | Inr (Some items_json) \<Rightarrow>
          discard (remote_call w c ''add_annotations_from_items''
                     [PStr items_json, refresh_plot, panel]))"

text \<open>
  \<^verbatim>\<open>
  def __getattr__(self, name):
      def compute_func(param=None):
          return self.calc(name, param)
      if name.startswith("compute_"):
          return compute_func
      raise AttributeError(f"DataLab has no compute function '{name}'")
  \<close>
  Python calls \<^verbatim>\<open>__getattr__\<close> for the names that the ordinary lookup does not find.
\<close>

definition compute_func ::
    "(dataset \<Rightarrow> string) \<Rightarrow> world \<Rightarrow> client \<Rightarrow> string \<Rightarrow> dataset option
       \<Rightarrow> (exc + pyval) \<times> event list" where
  "compute_func serialize w c name param = calc serialize w c name param"

definition getattr ::
    "(dataset \<Rightarrow> string) \<Rightarrow> world \<Rightarrow> client \<Rightarrow> string
       \<Rightarrow> exc + (dataset option \<Rightarrow> (exc + pyval) \<times> event list)" where
  "getattr serialize w c name =
     (if prefix ''compute_'' name then Inr (compute_func serialize w c name)
      else Inl (AttributeError
                  (''DataLab has no compute function '' @ [CHR 0x27] @ name @ [CHR 0x27])))"


section \<open>Reading a run\<close>

text \<open>The events of a run of \<open>connect\<close> or of the retry loop.\<close>

definition trace :: "'a \<times> 'b \<times> event list \<Rightarrow> event list" where
  "trace R = snd (snd R)"




text \<open>
  Forwarding in the plain sense: one call of the remote method \<open>name\<close> on the server
  at \<open>p\<close> with the arguments \<open>args\<close>, whose answer or exception is the result.
\<close>

definition forwarded :: "world \<Rightarrow> pyval \<Rightarrow> string \<Rightarrow> pyval list \<Rightarrow> (exc + pyval) \<times> event list" where
  "forwarded w p name args = (rpc w p name args, [Call p name args])"


section \<open>Sample inputs\<close>

text \<open>
  An instance of the parameter \<open>int_str\<close>: the unsigned decimal literals, which
  are among the strings that \<^verbatim>\<open>int\<close> accepts.
\<close>

definition decimal :: "string \<Rightarrow> int option" where
  "decimal s =
     (if s \<noteq> [] \<and> list_all (\<lambda>c. c \<in> set ''0123456789'') s
      then Some (foldl (\<lambda>a c. 10 * a + (of_char c - 48)) 0 s)
      else None)"

text \<open>
  A process on Linux with an empty environment; a machine where DataLab has written
  its port to the configuration file but does not listen; one where it answers
  (\<^verbatim>\<open>get_version\<close> with a version, anything else with its arguments); one where
  DataLab has never run; and DataLab coming up during the third attempt.
\<close>

definition linux :: process where
  "linux = \<lparr>platform = ''linux'', environ = Map.empty\<rparr>"


definition running :: world where
  "running =
     \<lparr>config_file = (\<lambda>env. [''main'' \<mapsto> [''rpc_server_port'' \<mapsto> ''28867'']]),
      rpc = (\<lambda>p m args. if m = ''get_version'' then Inr (PStr ''1.0.0'') else Inr (PList args))\<rparr>"



text \<open>The same world at every attempt.\<close>

definition always :: "world \<Rightarrow> nat \<Rightarrow> world" where
  "always w i = w"

text \<open>
  A proxy connected to port 28867, and a parameter of a computation. Instances of
  the library parameters: a \<open>serialize\<close> and a \<open>save_items\<close> that write an empty
  JSON value, and an \<open>np_save\<close> that copies the buffer and, as \<^verbatim>\<open>np.save\<close> does
  with \<^verbatim>\<open>allow_pickle=False\<close>, refuses an array of objects.
\<close>

definition connected :: client where
  "connected = \<lparr>port = PInt 28867, cdl = Some (ServerProxy (PInt 28867))\<rparr>"

definition no_items :: "dataset \<Rightarrow> string" where
  "no_items param = ''{}''"

definition raw_save :: "ndarray \<Rightarrow> exc + bytes" where
  "raw_save a =
     (if dtype a = ''object''
      then Inl (ValueError ''Object arrays cannot be saved when allow_pickle=False'')
      else Inr (buffer a))"

definition empty_json :: "pyval list \<Rightarrow> string" where
  "empty_json items = ''[]''"

definition fft_param :: dataset where
  "fft_param = DataSet ''cdl.param'' ''FFTParam'' [(''shift'', ''True'')]"


section \<open>The retry loop\<close>



lemma calls_append: "calls (xs @ ys) = calls xs @ calls ys"
  by (induction xs rule: calls.induct) simp_all





















text \<open>
  C8. \<open>connect\<close> checks its arguments before anything else: with \<^verbatim>\<open>timeout < 0.0\<close>
  it raises \<^verbatim>\<open>ValueError("timeout must be >= 0.0")\<close>; otherwise, with
  \<^verbatim>\<open>retries < 1\<close>, it raises \<^verbatim>\<open>ValueError("retries must be >= 1")\<close>. In either
  case nothing has happened (no attempt, no call, no output) and the state of the
  proxy and of the process is the one before the call.
\<close>

theorem connect_validates:
  "(or_default 5 timeout < 0 \<longrightarrow>
      connect int_str W p timeout retries st
        = (Inl (ValueError ''timeout must be >= 0.0''), st, [])) \<and>
   (0 \<le> or_default 5 timeout \<and> or_default 10 retries < 1 \<longrightarrow>
      connect int_str W p timeout retries st
        = (Inl (ValueError ''retries must be >= 1''), st, [])) \<and>
   (or_default 5 timeout < 0 \<or> or_default 10 retries < 1 \<longrightarrow>
      (\<exists>m. fst (connect int_str W p timeout retries st) = Inl (ValueError m)) \<and>
      fst (snd (connect int_str W p timeout retries st)) = st \<and>
      trace (connect int_str W p timeout retries st) = [])"
  by (simp add: connect_def Let_def trace_def)

theorem connect_validates_witness:
  "or_default 5 (Some (- 1 :: real)) < 0 \<and>
   fst (connect decimal (always running) PNone (Some (- 1)) None (linux, init))
     = Inl (ValueError ''timeout must be >= 0.0'') \<and>
   0 \<le> or_default 5 (None :: real option) \<and> or_default 10 (Some (0 :: int)) < 1 \<and>
   fst (connect decimal (always running) PNone None (Some 0) (linux, init))
     = Inl (ValueError ''retries must be >= 1'') \<and>
   snd (connect decimal (always running) PNone None (Some 0) (linux, init)) = ((linux, init), [])"
  using connect_validates [of "Some (- 1)" decimal "always running" PNone None "(linux, init)"]
    connect_validates [of None decimal "always running" PNone "Some 0" "(linux, init)"]
  by (simp add: or_default_def)


text \<open>
  C9. \<open>get_xmlrpcport_from_env\<close> never raises, whatever the environment: it returns
  the integer when \<^verbatim>\<open>CDL_XMLRPCPORT\<close> is set to a string that \<^verbatim>\<open>int\<close> parses, and
  \<^verbatim>\<open>None\<close> when the variable is unset or its value does not parse.
\<close>

theorem env_port_never_raises:
  "(\<exists>r. get_xmlrpcport_from_env int_str env = Inr r) \<and>
   (env XMLRPCPORT_ENV = None \<longrightarrow> get_xmlrpcport_from_env int_str env = Inr None) \<and>
   (\<forall>s. env XMLRPCPORT_ENV = Some s \<longrightarrow>
        (\<forall>n. int_str s = Some n \<longrightarrow> get_xmlrpcport_from_env int_str env = Inr (Some n)) \<and>
        (int_str s = None \<longrightarrow> get_xmlrpcport_from_env int_str env = Inr None))"
  by (simp add: get_xmlrpcport_from_env_def py_int_def split: option.splits)

theorem env_port_never_raises_witness:
  "get_xmlrpcport_from_env decimal [XMLRPCPORT_ENV \<mapsto> ''28867''] = Inr (Some 28867) \<and>
   get_xmlrpcport_from_env decimal [XMLRPCPORT_ENV \<mapsto> ''DataLab''] = Inr None \<and>
   get_xmlrpcport_from_env decimal Map.empty = Inr None"
  using env_port_never_raises [of decimal "[XMLRPCPORT_ENV \<mapsto> ''28867'']"]
    env_port_never_raises [of decimal "[XMLRPCPORT_ENV \<mapsto> ''DataLab'']"]
    env_port_never_raises [of decimal Map.empty]
  by (simp add: decimal_def)


text \<open>
  C10. \<^verbatim>\<open>__getattr__\<close>, which Python calls for the names not otherwise defined,
  succeeds if and only if the name starts with \<^verbatim>\<open>compute_\<close>: it then returns a
  function that, applied to an optional parameter, returns \<^verbatim>\<open>calc(name, param)\<close>;
  for any other name it raises \<^verbatim>\<open>AttributeError\<close>.
\<close>

theorem getattr_compute:
  "((\<exists>f. getattr serialize w c name = Inr f) \<longleftrightarrow> prefix ''compute_'' name) \<and>
   (prefix ''compute_'' name \<longrightarrow>
      (\<exists>f. getattr serialize w c name = Inr f \<and>
           (\<forall>param. f param = calc serialize w c name param))) \<and>
   (\<not> prefix ''compute_'' name \<longrightarrow>
      getattr serialize w c name
        = Inl (AttributeError (''DataLab has no compute function '' @ [CHR 0x27] @ name @ [CHR 0x27])))"
  by (auto simp: getattr_def compute_func_def)

theorem getattr_compute_witness:
  "prefix ''compute_'' ''compute_fft'' \<and>
   (\<exists>f. getattr no_items running connected ''compute_fft'' = Inr f \<and>
        f None = (Inr (PList [PStr ''compute_fft'']),
                  [Call (PInt 28867) ''calc'' [PStr ''compute_fft'']])) \<and>
   \<not> prefix ''compute_'' ''fft'' \<and>
   getattr no_items running connected ''fft''
     = Inl (AttributeError (''DataLab has no compute function '' @ [CHR 0x27] @ ''fft'' @ [CHR 0x27]))"
  using getattr_compute [of no_items running connected "''compute_fft''"]
    getattr_compute [of no_items running connected "''fft''"]
  by (auto simp: calc_def remote_call_def connected_def running_def)



section \<open>Port discovery and the connection attempt\<close>













section \<open>Forwarding\<close>

lemma forward_return:
  "cdl c = Some (ServerProxy p) \<Longrightarrow> remote_call w c name args = forwarded w p name args"
  by (simp add: remote_call_def forwarded_def)

lemma calls_forwarded: "calls (snd (forwarded w p name args)) = [(name, args)]"
  by (simp add: forwarded_def)

lemma calls_discard: "calls (snd (discard r)) = calls (snd r)"
  by (cases r) (simp add: discard_def split: sum.splits)


text \<open>
  C5, as the code has it. On a connected proxy, \<open>get_version\<close>,
  \<open>get_sel_object_uuids\<close>, \<open>get_object_titles\<close> and \<open>get_object_uuids\<close> forward the
  call to the remote method of the same name with their arguments unchanged and
  return its result unchanged. \<open>close_application\<close>, \<open>switch_to_panel\<close>,
  \<open>reset_all\<close>, \<open>save_to_h5_file\<close>, \<open>open_h5_files\<close>, \<open>import_h5_file\<close>,
  \<open>open_object\<close>, \<open>select_objects\<close>, \<open>select_groups\<close>, \<open>delete_metadata\<close> and
  \<open>add_label_with_title\<close> forward in the same way and return \<^verbatim>\<open>None\<close>, not the
  remote result. \<open>get_method_list\<close> forwards to \<^verbatim>\<open>system.listMethods\<close>. \<open>calc\<close>
  forwards the name alone when the parameter is \<^verbatim>\<open>None\<close> and otherwise the name
  with \<^verbatim>\<open>dataset_to_json(param)\<close>, and returns the remote result unchanged.
  \<open>add_signal\<close> and \<open>add_image\<close> forward their arguments unchanged except the
  arrays, which go through \<open>array_to_rpcbinary\<close>. \<open>add_annotations_from_items\<close>
  forwards the JSON text of a non-empty list of items with its other arguments.
\<close>

theorem proxy_forwarding:
  assumes "cdl c = Some (ServerProxy p)"
  shows
    "get_version w c = forwarded w p ''get_version'' [] \<and>
     close_application w c = discard (forwarded w p ''close_application'' []) \<and>
     switch_to_panel w c panel = discard (forwarded w p ''switch_to_panel'' [panel]) \<and>
     reset_all w c = discard (forwarded w p ''reset_all'' []) \<and>
     save_to_h5_file w c filename = discard (forwarded w p ''save_to_h5_file'' [filename]) \<and>
     open_h5_files w c h5files import_all reset
       = discard (forwarded w p ''open_h5_files'' [h5files, import_all, reset]) \<and>
     import_h5_file w c filename reset
       = discard (forwarded w p ''import_h5_file'' [filename, reset]) \<and>
     open_object w c filename = discard (forwarded w p ''open_object'' [filename]) \<and>
     get_sel_object_uuids w c include_groups
       = forwarded w p ''get_sel_object_uuids'' [include_groups] \<and>
     select_objects w c selection group_num panel
       = discard (forwarded w p ''select_objects'' [selection, group_num, panel]) \<and>
     select_groups w c selection panel
       = discard (forwarded w p ''select_groups'' [selection, panel]) \<and>
     delete_metadata w c refresh_plot
       = discard (forwarded w p ''delete_metadata'' [refresh_plot]) \<and>
     get_object_titles w c panel = forwarded w p ''get_object_titles'' [panel] \<and>
     get_object_uuids w c panel = forwarded w p ''get_object_uuids'' [panel] \<and>
     add_label_with_title w c title panel
       = discard (forwarded w p ''add_label_with_title'' [title, panel]) \<and>
     get_method_list w c = forwarded w p ''system.listMethods'' [] \<and>
     calc serialize w c name None = forwarded w p ''calc'' [PStr name] \<and>
     calc serialize w c name (Some d)
       = forwarded w p ''calc'' [PStr name, dataset_to_json serialize d] \<and>
     (array_to_rpcbinary np_save xdata = Inr xbinary \<and>
      array_to_rpcbinary np_save ydata = Inr ybinary \<longrightarrow>
        add_signal np_save w c title xdata ydata xunit yunit xlabel ylabel
          = forwarded w p ''add_signal'' [title, xbinary, ybinary, xunit, yunit, xlabel, ylabel]) \<and>
     (array_to_rpcbinary np_save data = Inr zbinary \<longrightarrow>
        add_image np_save w c title data xunit yunit zunit xlabel ylabel zlabel
          = forwarded w p ''add_image''
              [title, zbinary, xunit, yunit, zunit, xlabel, ylabel, zlabel]) \<and>
     (items \<noteq> [] \<longrightarrow>
        add_annotations_from_items (Some save_items) w c items refresh_plot panel
          = discard (forwarded w p ''add_annotations_from_items''
                       [PStr (save_items items), refresh_plot, panel]))"
  by (simp add: forward_return [OF assms] get_version_def close_application_def
      switch_to_panel_def reset_all_def save_to_h5_file_def open_h5_files_def
      import_h5_file_def open_object_def get_sel_object_uuids_def select_objects_def
      select_groups_def delete_metadata_def get_object_titles_def get_object_uuids_def
      add_label_with_title_def get_method_list_def calc_def add_signal_def add_image_def
      add_annotations_from_items_def items_to_json_def)


theorem proxy_forwarding_witness:
  "cdl connected = Some (ServerProxy (PInt 28867)) \<and>
   get_object_titles running connected PNone
     = (Inr (PList [PNone]), [Call (PInt 28867) ''get_object_titles'' [PNone]]) \<and>
   select_objects running connected (PList [PInt 1, PInt 2]) PNone (PStr ''signal'')
     = (Inr PNone,
        [Call (PInt 28867) ''select_objects'' [PList [PInt 1, PInt 2], PNone, PStr ''signal'']]) \<and>
   calc no_items running connected ''compute_fft'' (Some fft_param)
     = forwarded running (PInt 28867) ''calc''
         [PStr ''compute_fft'', PList [PStr ''cdl.param'', PStr ''FFTParam'', PStr ''{}'']] \<and>
   array_to_rpcbinary raw_save (NDArray ''uint8'' [2] [3, 4]) = Inr (Binary [3, 4]) \<and>
   snd (add_image raw_save running connected (PStr ''toto'') (NDArray ''uint8'' [2] [3, 4])
          PNone PNone PNone PNone PNone PNone)
     = [Call (PInt 28867) ''add_image''
          [PStr ''toto'', Binary [3, 4], PNone, PNone, PNone, PNone, PNone, PNone]] \<and>
   [PlotItem ''label''] \<noteq> [] \<and>
   snd (add_annotations_from_items (Some empty_json) running connected [PlotItem ''label'']
          (PBool True) PNone)
     = [Call (PInt 28867) ''add_annotations_from_items'' [PStr ''[]'', PBool True, PNone]]"
  using proxy_forwarding [where c = connected and p = "PInt 28867" and w = running
      and panel = PNone and selection = "PList [PInt 1, PInt 2]" and group_num = PNone]
    proxy_forwarding [where c = connected and p = "PInt 28867" and w = running
      and panel = "PStr ''signal''" and selection = "PList [PInt 1, PInt 2]" and group_num = PNone
      and serialize = no_items and name = "''compute_fft''" and d = fft_param
      and np_save = raw_save and data = "NDArray ''uint8'' [2] [3, 4]" and zbinary = "Binary [3, 4]"
      and title = "PStr ''toto''" and xunit = PNone and yunit = PNone and zunit = PNone
      and xlabel = PNone and ylabel = PNone and zlabel = PNone]
    proxy_forwarding [where c = connected and p = "PInt 28867" and w = running
      and items = "[PlotItem ''label'']" and save_items = empty_json
      and refresh_plot = "PBool True" and panel = PNone]
  by (simp add: connected_def running_def forwarded_def discard_def dataset_to_json_def
      no_items_def fft_param_def array_to_rpcbinary_def raw_save_def empty_json_def)


text \<open>
  C5, as the claim has it, fails for \<open>calc\<close>, which the claim lists among the
  methods that pass their arguments through unchanged: a parameter reaches the
  server as the list that \<open>dataset_to_json\<close> makes of it, and a parameter that is
  \<^verbatim>\<open>None\<close> is not passed at all. It fails also for \<open>switch_to_panel\<close>, which
  returns \<^verbatim>\<open>None\<close> where the server (here one that answers with the arguments it
  got) returned something else.
\<close>

theorem proxy_forwarding_counterexample:
  "calc no_items running connected ''compute_fft'' (Some fft_param)
     \<noteq> forwarded running (PInt 28867) ''calc'' [PStr ''compute_fft'', PDataSet fft_param] \<and>
   calc no_items running connected ''compute_fft'' None
     \<noteq> forwarded running (PInt 28867) ''calc'' [PStr ''compute_fft'', PNone] \<and>
   switch_to_panel running connected (PStr ''signal'')
     \<noteq> forwarded running (PInt 28867) ''switch_to_panel'' [PStr ''signal'']"
  by (simp add: calc_def switch_to_panel_def discard_def remote_call_def forwarded_def
      connected_def running_def dataset_to_json_def)


text \<open>
  C7, as the code has it. On a connected proxy every forwarding method, and every
  function that \<^verbatim>\<open>__getattr__\<close> returns, performs exactly one call on the server
  proxy per invocation, with these exceptions: \<open>add_annotations_from_items\<close> performs
  none when the list of items is empty or PlotPy cannot be imported, and
  \<open>add_signal\<close> and \<open>add_image\<close> perform none when the encoding of an array raises.
\<close>

theorem one_call_per_invocation:
  assumes "cdl c = Some (ServerProxy p)"
  shows
    "length (calls (snd (get_version w c))) = 1 \<and>
     length (calls (snd (close_application w c))) = 1 \<and>
     length (calls (snd (switch_to_panel w c panel))) = 1 \<and>
     length (calls (snd (reset_all w c))) = 1 \<and>
     length (calls (snd (save_to_h5_file w c filename))) = 1 \<and>
     length (calls (snd (open_h5_files w c h5files import_all reset))) = 1 \<and>
     length (calls (snd (import_h5_file w c filename reset))) = 1 \<and>
     length (calls (snd (open_object w c filename))) = 1 \<and>
     length (calls (snd (get_sel_object_uuids w c include_groups))) = 1 \<and>
     length (calls (snd (select_objects w c selection group_num panel))) = 1 \<and>
     length (calls (snd (select_groups w c selection panel))) = 1 \<and>
     length (calls (snd (delete_metadata w c refresh_plot))) = 1 \<and>
     length (calls (snd (get_object_titles w c panel))) = 1 \<and>
     length (calls (snd (get_object_uuids w c panel))) = 1 \<and>
     length (calls (snd (add_label_with_title w c title panel))) = 1 \<and>
     length (calls (snd (get_method_list w c))) = 1 \<and>
     length (calls (snd (calc serialize w c name param))) = 1 \<and>
     (\<forall>f. getattr serialize w c name = Inr f \<longrightarrow> length (calls (snd (f param))) = 1) \<and>
     length (calls (snd (add_signal np_save w c title xdata ydata xunit yunit xlabel ylabel)))
       = (if isl (array_to_rpcbinary np_save xdata) \<or> isl (array_to_rpcbinary np_save ydata)
          then 0 else 1) \<and>
     length (calls (snd (add_image np_save w c title data xunit yunit zunit xlabel ylabel zlabel)))
       = (if isl (array_to_rpcbinary np_save data) then 0 else 1) \<and>
     length (calls (snd (add_annotations_from_items plotpy w c items refresh_plot panel)))
       = (if plotpy = None \<or> items = [] then 0 else 1)"
proof -
  note f = forward_return [OF assms] calls_forwarded calls_discard
  have "length (calls (snd (calc serialize w c name param))) = 1"
    by (cases param) (simp_all add: calc_def f)
  moreover have "\<forall>f. getattr serialize w c name = Inr f \<longrightarrow> length (calls (snd (f param))) = 1"
    using calculation by (auto simp: getattr_def compute_func_def split: if_splits)
  moreover have "length (calls (snd (add_signal np_save w c title xdata ydata xunit yunit xlabel ylabel)))
       = (if isl (array_to_rpcbinary np_save xdata) \<or> isl (array_to_rpcbinary np_save ydata)
          then 0 else 1)"
    by (simp add: add_signal_def f split: sum.splits)
  moreover have "length (calls (snd (add_image np_save w c title data xunit yunit zunit xlabel ylabel zlabel)))
       = (if isl (array_to_rpcbinary np_save data) then 0 else 1)"
    by (simp add: add_image_def f split: sum.splits)
  moreover have "length (calls (snd (add_annotations_from_items plotpy w c items refresh_plot panel)))
       = (if plotpy = None \<or> items = [] then 0 else 1)"
    by (cases plotpy) (simp_all add: add_annotations_from_items_def items_to_json_def f)
  ultimately show ?thesis
    by (simp add: f get_version_def close_application_def
      switch_to_panel_def reset_all_def save_to_h5_file_def open_h5_files_def
      import_h5_file_def open_object_def get_sel_object_uuids_def select_objects_def
      select_groups_def delete_metadata_def get_object_titles_def get_object_uuids_def
      add_label_with_title_def get_method_list_def)
qed

theorem one_call_per_invocation_witness:
  "cdl connected = Some (ServerProxy (PInt 28867)) \<and>
   calls (snd (reset_all running connected)) = [(''reset_all'', [])] \<and>
   getattr no_items running connected ''compute_fft'' = Inr (compute_func no_items running connected ''compute_fft'') \<and>
   length (calls (snd (compute_func no_items running connected ''compute_fft'' (Some fft_param)))) = 1 \<and>
   length (calls (snd (add_annotations_from_items (Some empty_json) running connected
                         [PlotItem ''label''] (PBool True) PNone))) = 1 \<and>
   length (calls (snd (add_signal raw_save running connected (PStr ''toto'')
                         (NDArray ''float64'' [1] [0]) (NDArray ''object'' [1] [0])
                         PNone PNone PNone PNone))) = 0"
  using one_call_per_invocation [where c = connected and p = "PInt 28867" and w = running
      and serialize = no_items and name = "''compute_fft''" and param = "Some fft_param"
      and plotpy = "Some empty_json" and items = "[PlotItem ''label'']"
      and refresh_plot = "PBool True" and panel = PNone
      and np_save = raw_save and title = "PStr ''toto''" and xdata = "NDArray ''float64'' [1] [0]"
      and ydata = "NDArray ''object'' [1] [0]" and xunit = PNone and yunit = PNone
      and xlabel = PNone and ylabel = PNone]
  by (simp add: connected_def reset_all_def discard_def remote_call_def running_def
      getattr_def array_to_rpcbinary_def raw_save_def)


text \<open>
  C7, as the claim has it, fails for \<open>add_annotations_from_items\<close> on the empty
  list of items: \<open>items_to_json\<close> returns \<^verbatim>\<open>None\<close> and no call is made.
\<close>

theorem one_call_per_invocation_counterexample:
  "calls (snd (add_annotations_from_items (Some empty_json) running connected []
                 (PBool True) PNone)) = [] \<and>
   length (calls (snd (add_annotations_from_items (Some empty_json) running connected []
                         (PBool True) PNone))) \<noteq> 1"
  by (simp add: add_annotations_from_items_def items_to_json_def)

end
